theory Spec2Isabelle
  imports Complex_Main
begin

section \<open>Data model\<close>

text \<open>
  The entities are the interfaces of \<^verbatim>\<open>features/chat/session/types\<close>,
  \<^verbatim>\<open>features/chat/document/types.ts\<close> and \<^verbatim>\<open>features/chat/query/types.ts\<close>.
  Field names carry a prefix, since several interfaces share \<^verbatim>\<open>id\<close>, \<^verbatim>\<open>session_id\<close>
  and \<^verbatim>\<open>created_at\<close>. Strings are lists of 8-bit characters.
\<close>

record session =
  s_id :: string
  s_session_id :: string
  s_name :: string
  s_description :: "string option"
  s_document_count :: nat
  s_created_at :: string
  s_last_activity_at :: string
  s_is_active :: bool

datatype document_status = uploaded | processing | indexed | failed

record document =
  d_id :: string
  d_session_id :: string
  d_file_name :: string
  d_file_size :: nat
  d_content_type :: string
  d_status :: document_status
  d_chunk_count :: "nat option"
  d_page_count :: "nat option"
  d_error_message :: "string option"
  d_processed_at :: "string option"
  d_created_at :: string

datatype source_type = document_source | web | llm_knowledge

record citation =
  c_source_type :: source_type
  c_source_id :: string
  c_page_number :: "nat option"
  c_url :: "string option"
  c_snippet :: string
  c_confidence :: real

datatype route = llm | web_search | multimodal_rag

record routing_decision =
  r_route :: route
  r_reasoning :: string
  r_confidence :: real
  r_fallback_route :: "route option"

datatype visual_type = full_page | diagram | table | figure

record visual_decision =
  v_requires_visual :: bool
  v_reasoning :: string
  v_visual_type :: "visual_type option"
  v_confidence :: real

record query_response =
  q_success :: bool
  q_query :: string
  q_answer :: string
  q_citations :: "citation list"
  q_routing :: "routing_decision option"
  q_visual_decision :: "visual_decision option"
  q_processing_time_ms :: nat
  q_session_id :: string

datatype message_role = user | assistant

text \<open>The metadata object that \<^verbatim>\<open>askQuery\<close> builds for an assistant message.\<close>

record metadata =
  md_citations :: "citation list"
  md_routing :: "routing_decision option"
  md_visual_decision :: "visual_decision option"
  md_processing_time_ms :: nat

record session_message =
  m_id :: string
  m_session_id :: string
  m_role :: message_role
  m_content :: string
  m_metadata :: "metadata option"
  m_created_at :: string

section \<open>Requests, responses and errors\<close>

datatype http_method = GET | POST | DELETE

datatype request_data =
    NoData
  | SessionCreateData string "string option"
  | QueryRequestData string bool bool

text \<open>
  A request config: target, method, body, the \<^verbatim>\<open>Authorization\<close> header and the
  \<^verbatim>\<open>_retry\<close> mark that the response interceptor puts on it.
\<close>

record config =
  url :: string
  method' :: http_method
  data :: request_data
  Authorization :: "string option"
  retry :: bool

text \<open>
  The body of a response, as the call sites read it: \<^verbatim>\<open>data?.detail\<close>,
  \<^verbatim>\<open>data?.token?.access_token\<close>, \<^verbatim>\<open>data.sessions\<close>, \<^verbatim>\<open>data.documents\<close>, and the whole
  object read as a \<^verbatim>\<open>Session\<close> (by \<^verbatim>\<open>createSession\<close>) or as a \<^verbatim>\<open>QueryResponse\<close>
  (by \<^verbatim>\<open>askQuery\<close>). A field that is absent or null is \<open>None\<close>.
\<close>

record body =
  detail :: "string option"
  access_token :: "string option"
  sessions_field :: "session list option"
  documents_field :: "document list option"
  as_session :: session
  as_query_response :: query_response

record response =
  status :: nat
  rdata :: body

text \<open>What the network does with a request: it answers, or no answer arrives.\<close>

datatype net_outcome = Response response | NoResponse

text \<open>
  An \<^verbatim>\<open>AxiosError\<close>: the config of the request that failed and the response, when there
  was one. Every error the response interceptor sees comes from a request sent through
  the instance, so it has a config.
\<close>

record axios_error =
  err_config :: config
  err_response :: "response option"

datatype api_result = Resolved response | Rejected axios_error

definition err_status :: "axios_error \<Rightarrow> nat option" where
  "err_status e = map_option status (err_response e)"

text \<open>\<^verbatim>\<open>API_CONFIG.ENDPOINTS\<close> of \<^verbatim>\<open>app/config/api.ts\<close>.\<close>

definition REFRESH :: string where
  "REFRESH = ''/auth/refresh''"

definition SESSIONS_CREATE :: string where
  "SESSIONS_CREATE = ''/sessions''"

definition SESSIONS_LIST :: string where
  "SESSIONS_LIST = ''/sessions''"

definition SESSIONS_DELETE :: "string \<Rightarrow> string" where
  "SESSIONS_DELETE i = ''/sessions/'' @ i"

definition DOCUMENTS_LIST :: "string \<Rightarrow> string" where
  "DOCUMENTS_LIST sessionId = ''/sessions/'' @ sessionId @ ''/documents''"

definition DOCUMENTS_DELETE :: "string \<Rightarrow> string" where
  "DOCUMENTS_DELETE i = ''/documents/'' @ i"

definition QUERY_ASK :: "string \<Rightarrow> string" where
  "QUERY_ASK sessionId = ''/sessions/'' @ sessionId @ ''/query''"

section \<open>The credential store and the request pipeline\<close>

text \<open>
  The module state of \<^verbatim>\<open>authService.ts\<close> (\<^verbatim>\<open>_accessToken\<close>) and of the axios
  instance (\<^verbatim>\<open>isRefreshing\<close>), the browser location that the interceptor assigns, and
  a log of the requests put on the wire, oldest first. The log is not program state: it
  records the network calls so that they can be counted and inspected.
\<close>

record pstate =
  accessToken :: "string option"
  isRefreshing :: bool
  href :: string
  sent :: "config list"

definition setAccessToken :: "string option \<Rightarrow> pstate \<Rightarrow> pstate" where
  "setAccessToken token st = st\<lparr>accessToken := token\<rparr>"

definition getAccessToken :: "pstate \<Rightarrow> string option" where
  "getAccessToken st = accessToken st"

definition clearAccessToken :: "pstate \<Rightarrow> pstate" where
  "clearAccessToken st = st\<lparr>accessToken := None\<rparr>"

text \<open>JavaScript truthiness of a \<^verbatim>\<open>string | null\<close>: null and the empty string are falsy.\<close>

fun truthy :: "string option \<Rightarrow> bool" where
  "truthy None = False"
| "truthy (Some s) = (s \<noteq> [])"

text \<open>The request interceptor: attach the stored token, when there is one.\<close>

definition request_interceptor :: "pstate \<Rightarrow> config \<Rightarrow> config" where
  "request_interceptor st config =
     (let token = getAccessToken st in
      if truthy token then config\<lparr>Authorization := Some (''Bearer '' @ the token)\<rparr>
      else config)"

text \<open>axios resolves a response whose status is 2xx and rejects any other.\<close>

definition validateStatus :: "nat \<Rightarrow> bool" where
  "validateStatus s = (200 \<le> s \<and> s < 300)"

text \<open>The config that \<^verbatim>\<open>api.post(url)\<close>, \<^verbatim>\<open>api.get(url)\<close> and \<^verbatim>\<open>api.delete(url)\<close> build.\<close>

definition request :: "http_method \<Rightarrow> string \<Rightarrow> request_data \<Rightarrow> config" where
  "request m u d = \<lparr>url = u, method' = m, data = d, Authorization = None, retry = False\<rparr>"

text \<open>
  The network is a parameter: a function of the requests sent so far and of the request
  being sent, so that a server may answer the same request differently over time.
\<close>

type_synonym network = "config list \<Rightarrow> config \<Rightarrow> net_outcome"

text \<open>
  \<open>api\<close> is a call of the axios instance: the request interceptor, the network call,
  and on a non-2xx answer or no answer the rejected handler of the response
  interceptor, \<open>on_rejected\<close>. Each await of the source is taken as answered before
  anything else runs (one request in flight; the interleaving of several is in the
  section on concurrent requests). \<^verbatim>\<open>return api(originalRequest)\<close> inside \<^verbatim>\<open>try\<close> is not
  awaited, so a rejection of the replay is not caught by the \<^verbatim>\<open>catch\<close>: it is the result.
  \<^verbatim>\<open>originalRequest\<close> is \<^verbatim>\<open>error.config\<close> itself, so the mark set on it shows in the
  error that is rejected at the end.
\<close>

text \<open>
  The recursion ends: a marked request is never replayed, and while \<^verbatim>\<open>isRefreshing\<close> is
  set no refresh call is made. \<open>rank\<close> counts what a call may still nest.
\<close>

fun rank :: "config \<Rightarrow> pstate \<Rightarrow> nat" where
  "rank c st = (if retry c then 0 else if isRefreshing st then 1 else 2)"

function api :: "network \<Rightarrow> config \<Rightarrow> pstate \<Rightarrow> api_result \<times> pstate"
  and on_rejected :: "network \<Rightarrow> axios_error \<Rightarrow> pstate \<Rightarrow> api_result \<times> pstate" where
  "api net config st =
     (let config1 = request_interceptor st config;
          st1 = st\<lparr>sent := sent st @ [config1]\<rparr>
      in case net (sent st) config1 of
           Response r \<Rightarrow>
             if validateStatus (status r) then (Resolved r, st1)
             else on_rejected net \<lparr>err_config = config1, err_response = Some r\<rparr> st1
         | NoResponse \<Rightarrow>
             on_rejected net \<lparr>err_config = config1, err_response = None\<rparr> st1)"
| "on_rejected net error st =
     (if err_status error = Some 401 \<and> \<not> retry (err_config error) then
        let originalRequest = (err_config error)\<lparr>retry := True\<rparr>;
            error1 = error\<lparr>err_config := originalRequest\<rparr>
        in if isRefreshing st then api net originalRequest st
           else
             case api net (request POST REFRESH NoData) (st\<lparr>isRefreshing := True\<rparr>) of
               (Resolved resp, st2) \<Rightarrow>
                 let newToken = access_token (rdata resp);
                     st3 = (if truthy newToken then setAccessToken newToken st2 else st2);
                     st4 = st3\<lparr>isRefreshing := False\<rparr>
                 in api net originalRequest st4
             | (Rejected refreshError, st2) \<Rightarrow>
                 let st3 = st2\<lparr>isRefreshing := False\<rparr>
                 in if err_status refreshError = Some 401 then
                      (Rejected refreshError, (clearAccessToken st3)\<lparr>href := ''/login''\<rparr>)
                    else (Rejected error1, st3)
      else (Rejected error, st))"
  by pat_completeness auto
termination
  by (relation "measure (\<lambda>x. case x of
          Inl (net, c, st) \<Rightarrow> 2 * rank c st + 1
        | Inr (net, e, st) \<Rightarrow> 2 * rank (err_config e) st)")
     (auto simp: request_interceptor_def request_def Let_def)

declare api.simps [simp del] on_rejected.simps [simp del]

text \<open>The requests that one call of the instance puts on the wire.\<close>

definition calls :: "network \<Rightarrow> config \<Rightarrow> pstate \<Rightarrow> config list" where
  "calls net c st = drop (length (sent st)) (sent (snd (api net c st)))"

section \<open>Concurrent requests\<close>

text \<open>
  JavaScript runs one handler at a time, and a handler runs until it awaits the network.
  Several requests can be in flight, each a task: the config on the wire and the
  handlers suspended at \<^verbatim>\<open>await api.post(REFRESH)\<close> that wait for its result, innermost
  first, each given by the error it handles. The functions below are \<open>api\<close> and
  \<open>on_rejected\<close> cut at their awaits: \<open>send\<close> runs up to the network call, \<open>answered\<close>
  resumes when the answer arrives, \<open>rejected\<close> is the rejected handler up to its next
  network call, and \<open>settle\<close> gives a result to the suspended handlers. They share the
  pipeline state.
\<close>

datatype task = InFlight config "axios_error list" | Settled api_result

record world =
  shared :: pstate
  tasks :: "task list"

definition send :: "config \<Rightarrow> axios_error list \<Rightarrow> pstate \<Rightarrow> task \<times> pstate" where
  "send config k st =
     (let config1 = request_interceptor st config
      in (InFlight config1 k, st\<lparr>sent := sent st @ [config1]\<rparr>))"

fun settle :: "api_result \<Rightarrow> axios_error list \<Rightarrow> pstate \<Rightarrow> task \<times> pstate" where
  "settle result [] st = (Settled result, st)"
| "settle (Resolved resp) (error1 # k) st =
     (let newToken = access_token (rdata resp);
          st3 = (if truthy newToken then setAccessToken newToken st else st);
          st4 = st3\<lparr>isRefreshing := False\<rparr>
      in send (err_config error1) k st4)"
| "settle (Rejected refreshError) (error1 # k) st =
     (let st3 = st\<lparr>isRefreshing := False\<rparr>
      in if err_status refreshError = Some 401 then
           settle (Rejected refreshError) k ((clearAccessToken st3)\<lparr>href := ''/login''\<rparr>)
         else settle (Rejected error1) k st3)"

definition rejected :: "axios_error \<Rightarrow> axios_error list \<Rightarrow> pstate \<Rightarrow> task \<times> pstate" where
  "rejected error k st =
     (if err_status error = Some 401 \<and> \<not> retry (err_config error) then
        let originalRequest = (err_config error)\<lparr>retry := True\<rparr>;
            error1 = error\<lparr>err_config := originalRequest\<rparr>
        in if isRefreshing st then send originalRequest k st
           else send (request POST REFRESH NoData) (error1 # k) (st\<lparr>isRefreshing := True\<rparr>)
      else settle (Rejected error) k st)"

definition answered :: "net_outcome \<Rightarrow> config \<Rightarrow> axios_error list \<Rightarrow> pstate \<Rightarrow> task \<times> pstate" where
  "answered out config1 k st =
     (case out of
        Response r \<Rightarrow>
          if validateStatus (status r) then settle (Resolved r) k st
          else rejected \<lparr>err_config = config1, err_response = Some r\<rparr> k st
      | NoResponse \<Rightarrow> rejected \<lparr>err_config = config1, err_response = None\<rparr> k st)"

text \<open>
  \<open>issue\<close> is a caller calling the instance; \<open>deliver\<close> is the answer to the request of
  task \<open>i\<close> arriving. Which answer arrives next is the choice of the network.
\<close>

definition issue :: "config \<Rightarrow> world \<Rightarrow> world" where
  "issue c w = (case send c [] (shared w) of (t, st) \<Rightarrow> \<lparr>shared = st, tasks = tasks w @ [t]\<rparr>)"

definition deliver :: "nat \<Rightarrow> net_outcome \<Rightarrow> world \<Rightarrow> world" where
  "deliver i out w =
     (if i < length (tasks w) then
        case tasks w ! i of
          InFlight c k \<Rightarrow>
            (case answered out c k (shared w) of
               (t, st) \<Rightarrow> \<lparr>shared = st, tasks = (tasks w)[i := t]\<rparr>)
        | Settled r \<Rightarrow> w
      else w)"

text \<open>
  One task run alone against a network, for at most \<open>n\<close> answers. The network sees the
  log as it was before the request was sent, as in \<open>api\<close>.
\<close>

fun run_alone :: "network \<Rightarrow> nat \<Rightarrow> task \<times> pstate \<Rightarrow> (api_result \<times> pstate) option" where
  "run_alone net n (Settled r, st) = Some (r, st)"
| "run_alone net 0 (InFlight c k, st) = None"
| "run_alone net (Suc n) (InFlight c k, st) =
     run_alone net n (answered (net (butlast (sent st)) c) c k st)"

section \<open>Entity stores\<close>

text \<open>
  The hooks \<^verbatim>\<open>useSession\<close>, \<^verbatim>\<open>useDocuments\<close> and \<^verbatim>\<open>useQuery\<close>. Each holds React state;
  an operation takes the state of the pipeline and of the hook and returns both. A
  function that throws returns \<open>Inl\<close> with the error it throws.
\<close>

record session_store =
  sessions :: "session list"
  currentSession :: "session option"
  messages :: "session_message list"
  isLoading :: bool
  error :: "string option"

record documents_store =
  documents :: "document list"
  documents_isLoading :: bool
  documents_error :: "string option"

record query_store =
  query_isLoading :: bool
  query_error :: "string option"

text \<open>\<^verbatim>\<open>x || fallback\<close> on a string that may be missing: the empty string is falsy too.\<close>

fun or_else :: "string option \<Rightarrow> string \<Rightarrow> string" where
  "or_else None fallback = fallback"
| "or_else (Some s) fallback = (if s = [] then fallback else s)"

text \<open>\<^verbatim>\<open>description || null\<close>.\<close>

fun or_null :: "string option \<Rightarrow> string option" where
  "or_null None = None"
| "or_null (Some s) = (if s = [] then None else Some s)"

text \<open>
  The message of every \<^verbatim>\<open>catch\<close> block of the hooks:
  \<^verbatim>\<open>err instanceof Error && "response" in err ? err.response?.data?.detail || fallback : fallback\<close>.
\<close>

definition error_message :: "axios_error \<Rightarrow> string \<Rightarrow> string" where
  "error_message err fallback =
     (case err_response err of
        Some r \<Rightarrow> or_else (detail (rdata r)) fallback
      | None \<Rightarrow> fallback)"

definition fetchSessions :: "network \<Rightarrow> pstate \<Rightarrow> session_store \<Rightarrow> pstate \<times> session_store" where
  "fetchSessions net p s =
     (let s1 = s\<lparr>isLoading := True, error := None\<rparr> in
      case api net (request GET SESSIONS_LIST NoData) p of
        (Resolved response, p1) \<Rightarrow>
          (p1, s1\<lparr>sessions := (case sessions_field (rdata response) of Some l \<Rightarrow> l | None \<Rightarrow> []),
                  isLoading := False\<rparr>)
      | (Rejected err, p1) \<Rightarrow>
          (p1, s1\<lparr>error := Some (error_message err ''Failed to fetch sessions''),
                  isLoading := False\<rparr>))"

definition createSession ::
  "network \<Rightarrow> string \<Rightarrow> string option \<Rightarrow> pstate \<Rightarrow> session_store
     \<Rightarrow> (axios_error + session) \<times> pstate \<times> session_store" where
  "createSession net title description p s =
     (let s1 = s\<lparr>isLoading := True, error := None\<rparr> in
      case api net (request POST SESSIONS_CREATE (SessionCreateData title (or_null description))) p of
        (Resolved response, p1) \<Rightarrow>
          (let newSession = as_session (rdata response) in
           (Inr newSession, p1,
            s1\<lparr>sessions := newSession # sessions s1, currentSession := Some newSession,
               messages := [], isLoading := False\<rparr>))
      | (Rejected err, p1) \<Rightarrow>
          (Inl err, p1,
           s1\<lparr>error := Some (error_message err ''Failed to create session''), isLoading := False\<rparr>))"

text \<open>
  \<^verbatim>\<open>deleteSession\<close> compares the \<^verbatim>\<open>id\<close> field, of the sessions listed and of the current
  one, with its argument. \<^verbatim>\<open>currentSession\<close> is the value the closure holds, the state
  at the call.
\<close>

definition deleteSession :: "network \<Rightarrow> string \<Rightarrow> pstate \<Rightarrow> session_store \<Rightarrow> pstate \<times> session_store" where
  "deleteSession net sessionId p s =
     (let s1 = s\<lparr>isLoading := True, error := None\<rparr> in
      case api net (request DELETE (SESSIONS_DELETE sessionId) NoData) p of
        (Resolved response, p1) \<Rightarrow>
          (let s2 = s1\<lparr>sessions := filter (\<lambda>x. s_id x \<noteq> sessionId) (sessions s1)\<rparr>;
               s3 = (if map_option s_id (currentSession s) = Some sessionId
                     then s2\<lparr>currentSession := None, messages := []\<rparr> else s2)
           in (p1, s3\<lparr>isLoading := False\<rparr>))
      | (Rejected err, p1) \<Rightarrow>
          (p1, s1\<lparr>error := Some (error_message err ''Failed to delete session''),
                  isLoading := False\<rparr>))"

definition addMessage :: "session_message \<Rightarrow> session_store \<Rightarrow> session_store" where
  "addMessage message s = s\<lparr>messages := messages s @ [message]\<rparr>"

definition fetchDocuments :: "network \<Rightarrow> string \<Rightarrow> pstate \<Rightarrow> documents_store \<Rightarrow> pstate \<times> documents_store" where
  "fetchDocuments net sessionId p d =
     (let d1 = d\<lparr>documents_isLoading := True, documents_error := None\<rparr> in
      case api net (request GET (''/sessions/'' @ sessionId @ ''/documents'') NoData) p of
        (Resolved response, p1) \<Rightarrow>
          (p1, d1\<lparr>documents := (case documents_field (rdata response) of Some l \<Rightarrow> l | None \<Rightarrow> []),
                  documents_isLoading := False\<rparr>)
      | (Rejected err, p1) \<Rightarrow>
          (p1, d1\<lparr>documents_error := Some (error_message err ''Failed to fetch documents''),
                  documents_isLoading := False\<rparr>))"

definition deleteDocument :: "network \<Rightarrow> string \<Rightarrow> pstate \<Rightarrow> documents_store \<Rightarrow> pstate \<times> documents_store" where
  "deleteDocument net documentId p d =
     (let d1 = d\<lparr>documents_isLoading := True, documents_error := None\<rparr> in
      case api net (request DELETE (DOCUMENTS_DELETE documentId) NoData) p of
        (Resolved response, p1) \<Rightarrow>
          (p1, d1\<lparr>documents := filter (\<lambda>x. d_id x \<noteq> documentId) (documents d1),
                  documents_isLoading := False\<rparr>)
      | (Rejected err, p1) \<Rightarrow>
          (p1, d1\<lparr>documents_error := Some (error_message err ''Failed to delete document''),
                  documents_isLoading := False\<rparr>))"

text \<open>
  The clock is an input: \<open>now\<close> is \<^verbatim>\<open>Date.now()\<close> and \<open>iso\<close> is
  \<^verbatim>\<open>new Date().toISOString()\<close> at the moment a message is built.
\<close>

record clock =
  now :: nat
  iso :: string

fun toString :: "nat \<Rightarrow> string" where
  "toString n =
     (if n < 10 then [char_of (48 + n)]
      else toString (n div 10) @ [char_of (48 + n mod 10)])"

declare toString.simps [simp del]

definition askQuery ::
  "network \<Rightarrow> clock \<Rightarrow> string \<Rightarrow> string \<Rightarrow> pstate \<Rightarrow> query_store
     \<Rightarrow> (axios_error + session_message) \<times> pstate \<times> query_store" where
  "askQuery net t sessionId query p q =
     (let q1 = q\<lparr>query_isLoading := True, query_error := None\<rparr> in
      case api net (request POST (QUERY_ASK sessionId) (QueryRequestData query False True)) p of
        (Resolved response, p1) \<Rightarrow>
          (let queryResponse = as_query_response (rdata response) in
           (Inr \<lparr>m_id = ''msg_'' @ toString (now t),
                 m_session_id = q_session_id queryResponse,
                 m_role = assistant,
                 m_content = q_answer queryResponse,
                 m_metadata = Some \<lparr>md_citations = q_citations queryResponse,
                                     md_routing = q_routing queryResponse,
                                     md_visual_decision = q_visual_decision queryResponse,
                                     md_processing_time_ms = q_processing_time_ms queryResponse\<rparr>,
                 m_created_at = iso t\<rparr>,
            p1, q1\<lparr>query_isLoading := False\<rparr>))
      | (Rejected err, p1) \<Rightarrow>
          (Inl err, p1,
           q1\<lparr>query_error := Some (error_message err ''Failed to send query''),
              query_isLoading := False\<rparr>))"

section \<open>The chat page and the session panel\<close>

datatype toast_type = success | error_toast | info

record session_panel =
  showModal :: bool
  newSessionTitle :: string
  newSessionDescription :: string

text \<open>
  The state that \<^verbatim>\<open>ChatPage\<close> composes: the pipeline, the three hooks, the toast, the
  router location that \<^verbatim>\<open>navigate\<close> sets, the state of \<^verbatim>\<open>SessionPanel\<close>, and the
  messages shown by \<^verbatim>\<open>alert\<close>. \<^verbatim>\<open>console.error\<close> leaves the state as it is.
\<close>

record chat_page =
  pipeline :: pstate
  useSession :: session_store
  useDocuments :: documents_store
  useQuery :: query_store
  toast :: "(string \<times> toast_type) option"
  location :: string
  panel :: session_panel
  alerts :: "string list"

definition handleCreateSession :: "network \<Rightarrow> string \<Rightarrow> string option \<Rightarrow> chat_page \<Rightarrow> chat_page" where
  "handleCreateSession net name description page =
     (case createSession net name (or_null description) (pipeline page) (useSession page) of
        (Inr newSession, p1, s1) \<Rightarrow>
          page\<lparr>pipeline := p1, useSession := s1, location := ''/chat/'' @ s_session_id newSession\<rparr>
      | (Inl err, p1, s1) \<Rightarrow> page\<lparr>pipeline := p1, useSession := s1\<rparr>)"


text \<open>
  \<^verbatim>\<open>handleAskQuery\<close> in two steps. \<open>handleAskQuery_begin\<close> is the part that runs before
  \<^verbatim>\<open>askQuery\<close> is called: it builds the user message and appends it. \<open>handleAskQuery\<close>
  is the whole handler. \<open>t1\<close> is the clock when the user message is built, \<open>t2\<close> when the
  answer has arrived.
\<close>

definition userMessage :: "clock \<Rightarrow> string \<Rightarrow> session \<Rightarrow> session_message" where
  "userMessage t1 query cs =
     \<lparr>m_id = toString (now t1), m_session_id = s_session_id cs, m_role = user,
      m_content = query, m_metadata = None, m_created_at = iso t1\<rparr>"

definition handleAskQuery_begin :: "clock \<Rightarrow> string \<Rightarrow> session \<Rightarrow> chat_page \<Rightarrow> chat_page" where
  "handleAskQuery_begin t1 query cs page =
     page\<lparr>useSession := addMessage (userMessage t1 query cs) (useSession page)\<rparr>"

definition handleAskQuery :: "network \<Rightarrow> clock \<Rightarrow> clock \<Rightarrow> string \<Rightarrow> chat_page \<Rightarrow> chat_page" where
  "handleAskQuery net t1 t2 query page =
     (case currentSession (useSession page) of
        None \<Rightarrow> page
      | Some cs \<Rightarrow>
          (let page1 = handleAskQuery_begin t1 query cs page in
           case askQuery net t2 (s_session_id cs) query (pipeline page1) (useQuery page1) of
             (Inr assistantMessage, p1, q1) \<Rightarrow>
               page1\<lparr>pipeline := p1, useQuery := q1,
                     useSession := addMessage assistantMessage (useSession page1)\<rparr>
           | (Inl err, p1, q1) \<Rightarrow> page1\<lparr>pipeline := p1, useQuery := q1\<rparr>))"

text \<open>
  \<^verbatim>\<open>String.prototype.trim\<close> on 8-bit characters: tab, line feed, vertical tab, form
  feed, carriage return, space and the no-break space are white space.
\<close>

definition isWhiteSpace :: "char \<Rightarrow> bool" where
  "isWhiteSpace c = (of_char c \<in> {9 :: nat, 10, 11, 12, 13, 32, 160})"

definition trim :: "string \<Rightarrow> string" where
  "trim s = rev (dropWhile isWhiteSpace (rev (dropWhile isWhiteSpace s)))"

text \<open>\<^verbatim>\<open>SessionPanel.handleCreateSession\<close>, with \<^verbatim>\<open>onCreateSession\<close> bound as \<^verbatim>\<open>ChatPage\<close> binds it.\<close>

definition SessionPanel_handleCreateSession :: "network \<Rightarrow> chat_page \<Rightarrow> chat_page" where
  "SessionPanel_handleCreateSession net page =
     (if trim (newSessionTitle (panel page)) = [] then
        page\<lparr>alerts := alerts page @ [''Please enter a session title'']\<rparr>
      else
        (let page1 = handleCreateSession net (newSessionTitle (panel page))
                       (Some (newSessionDescription (panel page))) page
         in page1\<lparr>panel := \<lparr>showModal = False, newSessionTitle = [], newSessionDescription = []\<rparr>\<rparr>))"

section \<open>Sample inputs\<close>

text \<open>
  A server for which the token \<open>old\<close> has expired and the token \<open>new\<close> is valid; the
  answer of the refresh endpoint is a parameter.
\<close>

definition ex_session :: session where
  "ex_session = \<lparr>s_id = ''s1'', s_session_id = ''s1'', s_name = ''Thesis'', s_description = None,
     s_document_count = 0, s_created_at = ''2024-01-01T00:00:00Z'',
     s_last_activity_at = ''2024-01-01T00:00:00Z'', s_is_active = True\<rparr>"

definition ex_query_response :: query_response where
  "ex_query_response = \<lparr>q_success = True, q_query = ''What is the claim?'', q_answer = ''An answer'',
     q_citations = [], q_routing = None, q_visual_decision = None, q_processing_time_ms = 12,
     q_session_id = ''s1''\<rparr>"

definition ex_body :: body where
  "ex_body = \<lparr>detail = None, access_token = None, sessions_field = None, documents_field = None,
     as_session = ex_session, as_query_response = ex_query_response\<rparr>"

definition ex_state :: pstate where
  "ex_state = \<lparr>accessToken = Some ''old'', isRefreshing = False, href = ''/chat'', sent = []\<rparr>"

definition ex_unauthorized :: response where
  "ex_unauthorized = \<lparr>status = 401, rdata = ex_body\<lparr>detail := Some ''Token expired''\<rparr>\<rparr>"

definition ex_ok :: response where
  "ex_ok = \<lparr>status = 200, rdata = ex_body\<rparr>"

definition ex_server :: "net_outcome \<Rightarrow> network" where
  "ex_server refresh_answer hist c =
     (if url c = REFRESH then refresh_answer
      else if Authorization c = Some ''Bearer new'' then Response ex_ok
      else Response ex_unauthorized)"

definition ex_request :: config where
  "ex_request = request GET SESSIONS_LIST NoData"

definition ex_refresh_unauthorized :: response where
  "ex_refresh_unauthorized = \<lparr>status = 401, rdata = ex_body\<lparr>detail := Some ''Refresh token invalid''\<rparr>\<rparr>"

definition ex_refresh_request :: config where
  "ex_refresh_request = \<lparr>url = REFRESH, method' = POST, data = NoData,
     Authorization = Some ''Bearer old'', retry = False\<rparr>"

definition ex_refresh_empty :: response where
  "ex_refresh_empty = \<lparr>status = 200, rdata = ex_body\<rparr>"

definition ex_other_session :: session where
  "ex_other_session = ex_session\<lparr>s_id := ''s2'', s_session_id := ''s2'', s_name := ''Notes''\<rparr>"

definition ex_document :: document where
  "ex_document = \<lparr>d_id = ''d1'', d_session_id = ''s1'', d_file_name = ''paper.pdf'', d_file_size = 1024,
     d_content_type = ''application/pdf'', d_status = indexed, d_chunk_count = Some 3,
     d_page_count = Some 2, d_error_message = None, d_processed_at = None,
     d_created_at = ''2024-01-01T00:00:00Z''\<rparr>"

definition ex_message :: session_message where
  "ex_message = \<lparr>m_id = ''1'', m_session_id = ''s1'', m_role = user, m_content = ''Hello'',
     m_metadata = None, m_created_at = ''2024-01-02T00:00:00Z''\<rparr>"

definition ex_signed_in :: pstate where
  "ex_signed_in = \<lparr>accessToken = Some ''new'', isRefreshing = False, href = ''/chat'', sent = []\<rparr>"

definition ex_page :: chat_page where
  "ex_page = \<lparr>pipeline = ex_signed_in,
     useSession = \<lparr>sessions = [ex_session, ex_other_session], currentSession = Some ex_session,
                    messages = [ex_message], isLoading = False, error = None\<rparr>,
     useDocuments = \<lparr>documents = [ex_document], documents_isLoading = False, documents_error = None\<rparr>,
     useQuery = \<lparr>query_isLoading = False, query_error = None\<rparr>,
     toast = None, location = ''/chat/s1'',
     panel = \<lparr>showModal = True, newSessionTitle = ''Thesis'', newSessionDescription = []\<rparr>,
     alerts = []\<rparr>"

definition ex_up :: network where
  "ex_up = ex_server (Response ex_ok)"

definition ex_failing :: network where
  "ex_failing hist c = Response \<lparr>status = 500, rdata = ex_body\<lparr>detail := Some ''Database unavailable''\<rparr>\<rparr>"

definition ex_clock :: clock where
  "ex_clock = \<lparr>now = 1700000000000, iso = ''2023-11-14T22:13:20.000Z''\<rparr>"

definition ex_later :: clock where
  "ex_later = \<lparr>now = 1700000002000, iso = ''2023-11-14T22:13:22.000Z''\<rparr>"

definition ex_failure :: "config \<Rightarrow> axios_error" where
  "ex_failure c = \<lparr>err_config = c\<lparr>Authorization := Some ''Bearer new''\<rparr>,
     err_response = Some \<lparr>status = 500, rdata = ex_body\<lparr>detail := Some ''Database unavailable''\<rparr>\<rparr>\<rparr>"

text \<open>
  Two requests sent together with the expired token, as \<^verbatim>\<open>loadSession\<close> sends them with
  \<^verbatim>\<open>Promise.all\<close>. In \<open>ex_race\<close> the second 401 arrives while the refresh started by the
  first is in flight; in \<open>ex_late\<close> it arrives after that refresh has completed.
\<close>

definition ex_refresh_ok :: response where
  "ex_refresh_ok = \<lparr>status = 200, rdata = ex_body\<lparr>access_token := Some ''new''\<rparr>\<rparr>"

definition ex_get_session :: config where
  "ex_get_session = request GET ''/sessions/s1'' NoData"

definition ex_get_messages :: config where
  "ex_get_messages = request GET ''/sessions/s1/messages'' NoData"

definition ex_world :: world where
  "ex_world = issue ex_get_messages (issue ex_get_session \<lparr>shared = ex_state, tasks = []\<rparr>)"

definition ex_race3 :: world where
  "ex_race3 = deliver 1 (Response ex_unauthorized) (deliver 0 (Response ex_unauthorized) ex_world)"

definition ex_race :: world where
  "ex_race = deliver 0 (Response ex_ok) (deliver 1 (Response ex_unauthorized)
      (deliver 0 (Response ex_refresh_ok) ex_race3))"

definition ex_late :: world where
  "ex_late = deliver 1 (Response ex_ok) (deliver 0 (Response ex_ok)
      (deliver 1 (Response ex_refresh_ok) (deliver 1 (Response ex_unauthorized)
      (deliver 0 (Response ex_refresh_ok) (deliver 0 (Response ex_unauthorized) ex_world)))))"

lemmas ex_defs = ex_session_def ex_query_response_def ex_body_def ex_state_def ex_unauthorized_def
  ex_ok_def ex_server_def ex_request_def request_def REFRESH_def SESSIONS_LIST_def
  request_interceptor_def getAccessToken_def setAccessToken_def clearAccessToken_def
  validateStatus_def err_status_def Let_def

lemmas ex_page_defs = ex_other_session_def ex_document_def ex_message_def ex_signed_in_def ex_page_def
  ex_up_def ex_failing_def SESSIONS_DELETE_def SESSIONS_CREATE_def DOCUMENTS_LIST_def DOCUMENTS_DELETE_def
  QUERY_ASK_def

section \<open>Properties of the request pipeline\<close>

lemma retry_request_interceptor: "retry (request_interceptor st c) = retry c"
  by (simp add: request_interceptor_def Let_def)

lemma url_request_interceptor: "url (request_interceptor st c) = url c"
  by (simp add: request_interceptor_def Let_def)

lemma on_rejected_retried:
  "retry (err_config e) \<Longrightarrow> on_rejected net e st = (Rejected e, st)"
  by (simp add: on_rejected.simps)

lemma on_rejected_other:
  "err_status e \<noteq> Some 401 \<Longrightarrow> on_rejected net e st = (Rejected e, st)"
  by (simp add: on_rejected.simps)

lemma api_retried:
  assumes "retry c"
  shows "api net c st =
     (case net (sent st) (request_interceptor st c) of
        Response r \<Rightarrow>
          if validateStatus (status r) then (Resolved r, st\<lparr>sent := sent st @ [request_interceptor st c]\<rparr>)
          else (Rejected \<lparr>err_config = request_interceptor st c, err_response = Some r\<rparr>,
                st\<lparr>sent := sent st @ [request_interceptor st c]\<rparr>)
      | NoResponse \<Rightarrow>
          (Rejected \<lparr>err_config = request_interceptor st c, err_response = None\<rparr>,
           st\<lparr>sent := sent st @ [request_interceptor st c]\<rparr>))"
  using assms
  by (simp add: api.simps [of net c st] Let_def on_rejected_retried retry_request_interceptor
      split: net_outcome.split)

lemma api_retried_frame:
  assumes "retry c" and "api net c st = (res, st')"
  shows "st' = st\<lparr>sent := sent st @ [request_interceptor st c]\<rparr>"
  using assms by (auto simp: api_retried split: net_outcome.splits if_splits)

lemma api_refreshing_frame:
  assumes "isRefreshing st" and "api net c st = (res, st')"
  shows "\<exists>new. st' = st\<lparr>sent := sent st @ request_interceptor st c # new\<rparr> \<and> length new \<le> 1
           \<and> (\<forall>x\<in>set new. url x = url c)"
proof (cases "retry c")
  case True
  then show ?thesis using assms(2) by (auto dest: api_retried_frame)
next
  case False
  let ?c1 = "request_interceptor st c"
  let ?st1 = "st\<lparr>sent := sent st @ [?c1]\<rparr>"
  show ?thesis
  proof (cases "net (sent st) ?c1")
    case NoResponse
    then show ?thesis using assms(2)
      by (auto simp: api.simps [of net c st] Let_def on_rejected_other err_status_def)
  next
    case (Response r)
    show ?thesis
    proof (cases "status r = 401")
      case False
      then show ?thesis using assms(2) Response
        by (auto simp: api.simps [of net c st] Let_def on_rejected_other err_status_def split: if_splits)
    next
      case True
      then have "api net c st = api net (?c1\<lparr>retry := True\<rparr>) ?st1"
        using Response \<open>\<not> retry c\<close> assms(1)
        by (simp add: api.simps [of net c st] Let_def validateStatus_def
            on_rejected.simps [of net _ ?st1] err_status_def retry_request_interceptor)
      then have "api net (?c1\<lparr>retry := True\<rparr>) ?st1 = (res, st')" using assms(2) by simp
      then have "st' = ?st1\<lparr>sent := sent ?st1 @ [request_interceptor ?st1 (?c1\<lparr>retry := True\<rparr>)]\<rparr>"
        by (rule api_retried_frame [rotated]) simp
      then show ?thesis
        by (intro exI [of _ "[request_interceptor ?st1 (?c1\<lparr>retry := True\<rparr>)]"])
           (simp add: url_request_interceptor)
    qed
  qed
qed

lemma api_fresh_401:
  assumes "\<not> retry c" and "\<not> isRefreshing st"
    and "net (sent st) (request_interceptor st c) = Response r" and "status r = 401"
  shows "api net c st =
     (case api net (request POST REFRESH NoData)
             (st\<lparr>sent := sent st @ [request_interceptor st c], isRefreshing := True\<rparr>) of
        (Resolved resp, st2) \<Rightarrow>
          api net (request_interceptor st c\<lparr>retry := True\<rparr>)
            ((if truthy (access_token (rdata resp)) then setAccessToken (access_token (rdata resp)) st2 else st2)
               \<lparr>isRefreshing := False\<rparr>)
      | (Rejected refreshError, st2) \<Rightarrow>
          if err_status refreshError = Some 401 then
            (Rejected refreshError, (clearAccessToken (st2\<lparr>isRefreshing := False\<rparr>))\<lparr>href := ''/login''\<rparr>)
          else (Rejected \<lparr>err_config = request_interceptor st c\<lparr>retry := True\<rparr>, err_response = Some r\<rparr>,
                st2\<lparr>isRefreshing := False\<rparr>))"
  using assms
  by (simp add: api.simps [of net c st] Let_def validateStatus_def err_status_def
      on_rejected.simps [of net _ "st\<lparr>sent := sent st @ [request_interceptor st c]\<rparr>"]
      retry_request_interceptor split: prod.split api_result.split)

lemma api_not_401:
  assumes "net (sent st) (request_interceptor st c) = NoResponse \<or>
           (\<exists>r. net (sent st) (request_interceptor st c) = Response r \<and> status r \<noteq> 401)"
  shows "\<exists>res. api net c st = (res, st\<lparr>sent := sent st @ [request_interceptor st c]\<rparr>)"
  using assms
  by (auto simp: api.simps [of net c st] Let_def on_rejected_other err_status_def)

lemma sent_setAccessToken: "sent (setAccessToken t st) = sent st"
  by (simp add: setAccessToken_def)

lemma api_sent:
  "\<exists>new. sent (snd (api net c st)) = sent st @ request_interceptor st c # new \<and> length new \<le> 3
      \<and> length (filter (\<lambda>x. url x \<noteq> REFRESH) new) \<le> 1"
proof -
  let ?c1 = "request_interceptor st c"
  consider (other) "net (sent st) ?c1 = NoResponse \<or> (\<exists>r. net (sent st) ?c1 = Response r \<and> status r \<noteq> 401)"
    | (retried) "retry c"
    | (refreshing) "isRefreshing st"
    | (fresh) r where "\<not> retry c" "\<not> isRefreshing st" "net (sent st) ?c1 = Response r" "status r = 401"
    by (cases "net (sent st) ?c1") auto
  then show ?thesis
  proof cases
    case other
    from api_not_401 [where net = net and c = c and st = st, OF this] obtain res where "api net c st = (res, st\<lparr>sent := sent st @ [?c1]\<rparr>)" ..
    then show ?thesis by simp
  next
    case retried
    obtain res st' where eq: "api net c st = (res, st')" by (cases "api net c st")
    from api_retried_frame [OF retried eq] show ?thesis by (simp add: eq)
  next
    case refreshing
    obtain res st' where eq: "api net c st = (res, st')" by (cases "api net c st")
    from api_refreshing_frame [OF refreshing eq] obtain new
      where "st' = st\<lparr>sent := sent st @ ?c1 # new\<rparr>" "length new \<le> 1" by blast
    then show ?thesis
      by (intro exI [of _ new]) (simp add: eq le_trans [OF length_filter_le])
  next
    case fresh
    let ?st1 = "st\<lparr>sent := sent st @ [?c1], isRefreshing := True\<rparr>"
    let ?rc = "request POST REFRESH NoData"
    obtain rr st2 where eq2: "api net ?rc ?st1 = (rr, st2)" by (cases "api net ?rc ?st1")
    have "isRefreshing ?st1" by simp
    from api_refreshing_frame [OF this eq2] obtain newr
      where st2: "st2 = ?st1\<lparr>sent := sent ?st1 @ request_interceptor ?st1 ?rc # newr\<rparr>"
        and len: "length newr \<le> 1" and urls: "\<forall>x\<in>set newr. url x = url ?rc" by blast
    have url_rc: "url ?rc = REFRESH" by (simp add: request_def)
    define rcs where "rcs = request_interceptor ?st1 ?rc # newr"
    have filt: "filter (\<lambda>x. url x \<noteq> REFRESH) rcs = []"
      using urls by (simp add: rcs_def url_request_interceptor url_rc filter_empty_conv)
    have lenr: "length rcs \<le> 2" using len by (simp add: rcs_def)
    have sent2: "sent st2 = sent st @ ?c1 # rcs" using st2 by (simp add: rcs_def)
    show ?thesis
    proof (cases rr)
      case (Rejected e)
      then have "sent (snd (api net c st)) = sent st2"
        using api_fresh_401 [where net = net and c = c and st = st, OF fresh] eq2
        by (simp add: clearAccessToken_def)
      then show ?thesis using sent2 lenr filt
        by (intro exI [of _ rcs]) simp
    next
      case (Resolved resp)
      let ?st4 = "(if truthy (access_token (rdata resp)) then setAccessToken (access_token (rdata resp)) st2 else st2)
               \<lparr>isRefreshing := False\<rparr>"
      let ?o = "?c1\<lparr>retry := True\<rparr>"
      have eq: "api net c st = api net ?o ?st4"
        using api_fresh_401 [where net = net and c = c and st = st, OF fresh] eq2 Resolved by simp
      obtain res st' where eq4: "api net ?o ?st4 = (res, st')" by (cases "api net ?o ?st4")
      define x where "x = request_interceptor ?st4 ?o"
      have "st' = ?st4\<lparr>sent := sent ?st4 @ [request_interceptor ?st4 ?o]\<rparr>"
        by (rule api_retried_frame [OF _ eq4]) simp
      then have "sent (snd (api net c st)) = sent st2 @ [x]"
        by (simp add: eq eq4 sent_setAccessToken x_def)
      then have "sent (snd (api net c st)) = sent st @ ?c1 # (rcs @ [x])"
        using sent2 by simp
      then show ?thesis using lenr filt
        by (intro exI [of _ "rcs @ [x]"]) simp
    qed
  qed
qed

lemma length_filter_mono:
  "(\<And>x. P x \<Longrightarrow> Q x) \<Longrightarrow> length (filter P xs) \<le> length (filter Q xs)"
  by (induction xs) auto

text \<open>
  C2. A request is replayed at most once. One call of the instance puts at most four
  requests on the wire; for a request that is not itself the refresh call, at most one of
  them is a replay of it (same target, marked \<^verbatim>\<open>_retry\<close>); and when a request marked
  \<^verbatim>\<open>_retry\<close> is answered 401, that 401 is the result, and nothing but the one request has
  been sent: no refresh, no further replay.
\<close>

theorem replay_at_most_once:
  "length (calls net c st) \<le> 4 \<and>
   (\<not> retry c \<and> url c \<noteq> REFRESH \<longrightarrow>
      length (filter (\<lambda>x. url x = url c \<and> retry x) (calls net c st)) \<le> 1) \<and>
   (retry c' \<and> net (sent st') (request_interceptor st' c') = Response r \<and> status r = 401 \<longrightarrow>
      api net c' st' =
        (Rejected \<lparr>err_config = request_interceptor st' c', err_response = Some r\<rparr>,
         st'\<lparr>sent := sent st' @ [request_interceptor st' c']\<rparr>))"
proof (intro conjI impI)
  obtain new where new: "sent (snd (api net c st)) = sent st @ request_interceptor st c # new"
    and len: "length new \<le> 3" and filt: "length (filter (\<lambda>x. url x \<noteq> REFRESH) new) \<le> 1"
    using api_sent [of net c st] by blast
  have calls: "calls net c st = request_interceptor st c # new"
    by (simp add: calls_def new)
  show "length (calls net c st) \<le> 4" using len by (simp add: calls)
  {
    assume a: "\<not> retry c \<and> url c \<noteq> REFRESH"
    have "length (filter (\<lambda>x. url x = url c \<and> retry x) new)
            \<le> length (filter (\<lambda>x. url x \<noteq> REFRESH) new)"
      using a by (intro length_filter_mono) simp
    then show "length (filter (\<lambda>x. url x = url c \<and> retry x) (calls net c st)) \<le> 1"
      using a filt by (simp add: calls retry_request_interceptor)
  }
  {
    assume "retry c' \<and> net (sent st') (request_interceptor st' c') = Response r \<and> status r = 401"
    then show "api net c' st' =
        (Rejected \<lparr>err_config = request_interceptor st' c', err_response = Some r\<rparr>,
         st'\<lparr>sent := sent st' @ [request_interceptor st' c']\<rparr>)"
      by (simp add: api_retried validateStatus_def)
  }
qed

theorem replay_at_most_once_witness:
  "length (calls (ex_server NoResponse) ex_request ex_state) \<le> 4 \<and>
   length (filter (\<lambda>x. url x = url ex_request \<and> retry x)
      (calls (ex_server NoResponse) ex_request ex_state)) \<le> 1 \<and>
   api (ex_server NoResponse) (ex_request\<lparr>retry := True\<rparr>) ex_state =
     (Rejected \<lparr>err_config = request_interceptor ex_state (ex_request\<lparr>retry := True\<rparr>),
               err_response = Some ex_unauthorized\<rparr>,
      ex_state\<lparr>sent := sent ex_state @ [request_interceptor ex_state (ex_request\<lparr>retry := True\<rparr>)]\<rparr>)"
proof -
  have h1: "\<not> retry ex_request \<and> url ex_request \<noteq> REFRESH"
    by (simp add: ex_defs)
  have h2: "retry (ex_request\<lparr>retry := True\<rparr>) \<and>
      ex_server NoResponse (sent ex_state) (request_interceptor ex_state (ex_request\<lparr>retry := True\<rparr>))
        = Response ex_unauthorized \<and> status ex_unauthorized = 401"
    by (simp add: ex_defs)
  show ?thesis
    using h1 h2
      replay_at_most_once [of "ex_server NoResponse" ex_request ex_state "ex_request\<lparr>retry := True\<rparr>"
        ex_state ex_unauthorized]
    by blast
qed

lemma api_refreshing_state:
  assumes "isRefreshing st" and "api net c st = (res, st')"
  shows "accessToken st' = accessToken st \<and> href st' = href st"
  using api_refreshing_frame [OF assms] by auto

text \<open>
  C5. A request was answered 401 and the refresh call fails with anything but a 401
  (no answer, a 5xx): the stored token and the location are as before, and the caller
  gets the error of the original request.
\<close>

theorem refresh_transient_failure:
  assumes "\<not> retry c" and "\<not> isRefreshing st"
    and "net (sent st) (request_interceptor st c) = Response r" and "status r = 401"
    and "api net (request POST REFRESH NoData)
           (st\<lparr>sent := sent st @ [request_interceptor st c], isRefreshing := True\<rparr>)
         = (Rejected refreshError, st2)"
    and "err_status refreshError \<noteq> Some 401"
  shows "fst (api net c st) =
           Rejected \<lparr>err_config = request_interceptor st c\<lparr>retry := True\<rparr>, err_response = Some r\<rparr>
       \<and> accessToken (snd (api net c st)) = accessToken st
       \<and> href (snd (api net c st)) = href st
       \<and> \<not> isRefreshing (snd (api net c st))"
proof -
  have eq: "api net c st =
      (Rejected \<lparr>err_config = request_interceptor st c\<lparr>retry := True\<rparr>, err_response = Some r\<rparr>,
       st2\<lparr>isRefreshing := False\<rparr>)"
    using api_fresh_401 [where net = net and c = c and st = st, OF assms(1-4)] assms(5,6) by simp
  have "accessToken st2 = accessToken st \<and> href st2 = href st"
    using api_refreshing_state [OF _ assms(5)] by simp
  then show ?thesis by (simp add: eq)
qed

theorem refresh_transient_failure_witness:
  "fst (api (ex_server NoResponse) ex_request ex_state) =
     Rejected \<lparr>err_config = request_interceptor ex_state ex_request\<lparr>retry := True\<rparr>,
               err_response = Some ex_unauthorized\<rparr>
   \<and> accessToken (snd (api (ex_server NoResponse) ex_request ex_state)) = Some ''old''
   \<and> href (snd (api (ex_server NoResponse) ex_request ex_state)) = ''/chat''
   \<and> \<not> isRefreshing (snd (api (ex_server NoResponse) ex_request ex_state))"
proof -
  let ?net = "ex_server NoResponse"
  let ?c1 = "request_interceptor ex_state ex_request"
  let ?e = "\<lparr>err_config = request_interceptor
              (ex_state\<lparr>sent := sent ex_state @ [?c1], isRefreshing := True\<rparr>)
              (request POST REFRESH NoData), err_response = None\<rparr>"
  let ?st2 = "ex_state\<lparr>sent := sent ex_state @ [?c1], isRefreshing := True,
     sent := (sent ex_state @ [?c1]) @ [err_config ?e]\<rparr>"
  have h1: "\<not> retry ex_request" by (simp add: ex_defs)
  have h2: "\<not> isRefreshing ex_state" by (simp add: ex_defs)
  have h3: "?net (sent ex_state) ?c1 = Response ex_unauthorized" by (simp add: ex_defs)
  have h4: "status ex_unauthorized = 401" by (simp add: ex_defs)
  have h5: "api ?net (request POST REFRESH NoData)
           (ex_state\<lparr>sent := sent ex_state @ [?c1], isRefreshing := True\<rparr>)
         = (Rejected ?e, ?st2)"
    by (simp add: api.simps on_rejected.simps ex_defs)
  have h6: "err_status ?e \<noteq> Some 401" by (simp add: err_status_def)
  show ?thesis
    using refresh_transient_failure [where net = ?net, OF h1 h2 h3 h4 h5 h6]
    by (simp add: ex_state_def)
qed

text \<open>
  C3, as amended. A request was answered 401 and the refresh call is rejected with a
  401: the stored token is cleared, the location is \<^verbatim>\<open>/login\<close>, and the caller gets the
  error of the refresh call.
\<close>

theorem refresh_unauthorized_terminal:
  assumes "\<not> retry c" and "\<not> isRefreshing st"
    and "net (sent st) (request_interceptor st c) = Response r" and "status r = 401"
    and "api net (request POST REFRESH NoData)
           (st\<lparr>sent := sent st @ [request_interceptor st c], isRefreshing := True\<rparr>)
         = (Rejected refreshError, st2)"
    and "err_status refreshError = Some 401"
  shows "fst (api net c st) = Rejected refreshError
       \<and> accessToken (snd (api net c st)) = None
       \<and> href (snd (api net c st)) = ''/login''
       \<and> \<not> isRefreshing (snd (api net c st))"
  using api_fresh_401 [where net = net and c = c and st = st, OF assms(1-4)] assms(5,6)
  by (simp add: clearAccessToken_def)

lemma ex_terminal_run:
  "api (ex_server (Response ex_refresh_unauthorized)) (request POST REFRESH NoData)
       (ex_state\<lparr>sent := sent ex_state @ [request_interceptor ex_state ex_request], isRefreshing := True\<rparr>)
     = (Rejected \<lparr>err_config = ex_refresh_request\<lparr>retry := True\<rparr>,
                 err_response = Some ex_refresh_unauthorized\<rparr>,
        ex_state\<lparr>isRefreshing := True,
          sent := [request_interceptor ex_state ex_request, ex_refresh_request,
                   ex_refresh_request\<lparr>retry := True\<rparr>]\<rparr>)"
  by (simp add: api.simps on_rejected.simps ex_defs ex_refresh_unauthorized_def ex_refresh_request_def)

theorem refresh_unauthorized_terminal_witness:
  "fst (api (ex_server (Response ex_refresh_unauthorized)) ex_request ex_state) =
      Rejected \<lparr>err_config = ex_refresh_request\<lparr>retry := True\<rparr>,
                err_response = Some ex_refresh_unauthorized\<rparr>
   \<and> accessToken (snd (api (ex_server (Response ex_refresh_unauthorized)) ex_request ex_state)) = None
   \<and> href (snd (api (ex_server (Response ex_refresh_unauthorized)) ex_request ex_state)) = ''/login''
   \<and> \<not> isRefreshing (snd (api (ex_server (Response ex_refresh_unauthorized)) ex_request ex_state))"
proof -
  let ?net = "ex_server (Response ex_refresh_unauthorized)"
  have h1: "\<not> retry ex_request" by (simp add: ex_defs)
  have h2: "\<not> isRefreshing ex_state" by (simp add: ex_defs)
  have h3: "?net (sent ex_state) (request_interceptor ex_state ex_request) = Response ex_unauthorized"
    by (simp add: ex_defs)
  have h4: "status ex_unauthorized = 401" by (simp add: ex_defs)
  have h6: "err_status \<lparr>err_config = ex_refresh_request\<lparr>retry := True\<rparr>,
                err_response = Some ex_refresh_unauthorized\<rparr> = Some 401"
    by (simp add: err_status_def ex_refresh_unauthorized_def)
  show ?thesis
    using refresh_unauthorized_terminal [where net = ?net, OF h1 h2 h3 h4 ex_terminal_run h6]
    by simp
qed

text \<open>
  C3, as stated, fails: the error that reaches the caller is not the 401 of the original
  request. It carries the response and the config of the refresh call.
\<close>

theorem refresh_unauthorized_original_error_counterexample:
  "ex_server (Response ex_refresh_unauthorized) (sent ex_state) (request_interceptor ex_state ex_request)
     = Response ex_unauthorized
   \<and> fst (api (ex_server (Response ex_refresh_unauthorized)) ex_request ex_state) =
       Rejected \<lparr>err_config = ex_refresh_request\<lparr>retry := True\<rparr>,
                 err_response = Some ex_refresh_unauthorized\<rparr>
   \<and> fst (api (ex_server (Response ex_refresh_unauthorized)) ex_request ex_state) \<noteq>
       Rejected \<lparr>err_config = request_interceptor ex_state ex_request\<lparr>retry := True\<rparr>,
                 err_response = Some ex_unauthorized\<rparr>
   \<and> fst (api (ex_server (Response ex_refresh_unauthorized)) ex_request ex_state) \<noteq>
       Rejected \<lparr>err_config = request_interceptor ex_state ex_request,
                 err_response = Some ex_unauthorized\<rparr>
   \<and> detail (rdata ex_unauthorized) = Some ''Token expired''
   \<and> detail (rdata ex_refresh_unauthorized) = Some ''Refresh token invalid''"
  by (simp add: api.simps on_rejected.simps ex_defs ex_refresh_unauthorized_def ex_refresh_request_def)

lemma request_interceptor_same_token:
  "accessToken st' = accessToken st \<Longrightarrow>
   request_interceptor st' (request_interceptor st c\<lparr>retry := b\<rparr>) = request_interceptor st c\<lparr>retry := b\<rparr>"
  by (simp add: request_interceptor_def getAccessToken_def Let_def)

text \<open>
  C10. A request was answered 401 and the refresh call resolves with a body that has no
  \<^verbatim>\<open>token.access_token\<close>: the stored token is as before, and the original request is
  replayed once, as it was first sent (so with the old credential), marked \<^verbatim>\<open>_retry\<close>.
\<close>

theorem refresh_without_token:
  assumes "\<not> retry c" and "\<not> isRefreshing st"
    and "net (sent st) (request_interceptor st c) = Response r" and "status r = 401"
    and "api net (request POST REFRESH NoData)
           (st\<lparr>sent := sent st @ [request_interceptor st c], isRefreshing := True\<rparr>)
         = (Resolved resp, st2)"
    and "access_token (rdata resp) = None"
  shows "accessToken (snd (api net c st)) = accessToken st
       \<and> sent (snd (api net c st)) = sent st2 @ [request_interceptor st c\<lparr>retry := True\<rparr>]"
proof -
  let ?o = "request_interceptor st c\<lparr>retry := True\<rparr>"
  let ?st4 = "st2\<lparr>isRefreshing := False\<rparr>"
  have eq: "api net c st = api net ?o ?st4"
    using api_fresh_401 [where net = net and c = c and st = st, OF assms(1-4)] assms(5,6) by simp
  have tok: "accessToken st2 = accessToken st"
    using api_refreshing_state [OF _ assms(5)] by simp
  obtain res st' where eq4: "api net ?o ?st4 = (res, st')" by (cases "api net ?o ?st4")
  have "st' = ?st4\<lparr>sent := sent ?st4 @ [request_interceptor ?st4 ?o]\<rparr>"
    by (rule api_retried_frame [OF _ eq4]) simp
  moreover have "request_interceptor ?st4 ?o = ?o"
    by (rule request_interceptor_same_token) (simp add: tok)
  ultimately have "st' = ?st4\<lparr>sent := sent st2 @ [?o]\<rparr>" by simp
  then show ?thesis using tok by (simp add: eq eq4)
qed

lemma ex_refresh_empty_run:
  "api (ex_server (Response ex_refresh_empty)) (request POST REFRESH NoData)
       (ex_state\<lparr>sent := sent ex_state @ [request_interceptor ex_state ex_request], isRefreshing := True\<rparr>)
     = (Resolved ex_refresh_empty,
        ex_state\<lparr>isRefreshing := True,
          sent := [request_interceptor ex_state ex_request, ex_refresh_request]\<rparr>)"
  by (simp add: api.simps ex_defs ex_refresh_empty_def ex_refresh_request_def)

theorem refresh_without_token_witness:
  "accessToken (snd (api (ex_server (Response ex_refresh_empty)) ex_request ex_state)) = Some ''old''
   \<and> sent (snd (api (ex_server (Response ex_refresh_empty)) ex_request ex_state)) =
       [\<lparr>url = ''/sessions'', method' = GET, data = NoData, Authorization = Some ''Bearer old'', retry = False\<rparr>,
        \<lparr>url = ''/auth/refresh'', method' = POST, data = NoData, Authorization = Some ''Bearer old'', retry = False\<rparr>,
        \<lparr>url = ''/sessions'', method' = GET, data = NoData, Authorization = Some ''Bearer old'', retry = True\<rparr>]"
proof -
  let ?net = "ex_server (Response ex_refresh_empty)"
  have h1: "\<not> retry ex_request" by (simp add: ex_defs)
  have h2: "\<not> isRefreshing ex_state" by (simp add: ex_defs)
  have h3: "?net (sent ex_state) (request_interceptor ex_state ex_request) = Response ex_unauthorized"
    by (simp add: ex_defs)
  have h4: "status ex_unauthorized = 401" by (simp add: ex_defs)
  have h6: "access_token (rdata ex_refresh_empty) = None"
    by (simp add: ex_refresh_empty_def ex_body_def)
  show ?thesis
    using refresh_without_token [where net = ?net, OF h1 h2 h3 h4 ex_refresh_empty_run h6]
    by (simp add: ex_defs ex_refresh_request_def)
qed

lemma request_interceptor_bearer:
  "accessToken st = Some t \<Longrightarrow> t \<noteq> [] \<Longrightarrow>
   request_interceptor st c = c\<lparr>Authorization := Some (''Bearer '' @ t)\<rparr>"
  by (simp add: request_interceptor_def getAccessToken_def)

text \<open>
  C4, as amended. Whatever the target of a request, the refresh endpoint included: when
  the store holds a non-empty token, the request goes on the wire with the header
  \<^verbatim>\<open>Authorization: Bearer <token>\<close>.
\<close>

theorem bearer_attached_to_every_request:
  assumes "accessToken st = Some t" and "t \<noteq> []"
  shows "\<exists>rest. sent (snd (api net c st)) = sent st @ c\<lparr>Authorization := Some (''Bearer '' @ t)\<rparr> # rest"
  using api_sent [of net c st] request_interceptor_bearer [OF assms] by auto

theorem bearer_attached_to_every_request_witness:
  "\<exists>rest. sent (snd (api (ex_server (Response ex_ok)) (request POST REFRESH NoData) ex_state))
     = sent ex_state @ (request POST REFRESH NoData)\<lparr>Authorization := Some (''Bearer '' @ ''old'')\<rparr> # rest"
proof -
  have h1: "accessToken ex_state = Some ''old''" by (simp add: ex_state_def)
  have h2: "''old'' \<noteq> []" by simp
  show ?thesis
    using bearer_attached_to_every_request [OF h1 h2] by blast
qed

text \<open>
  C4, as stated, fails: the second request on the wire is the refresh call, and it
  carries the bearer header.
\<close>

theorem refresh_exempt_counterexample:
  "sent (snd (api (ex_server (Response ex_ok)) ex_request ex_state)) ! 1 =
     \<lparr>url = ''/auth/refresh'', method' = POST, data = NoData, Authorization = Some ''Bearer old'', retry = False\<rparr>"
  by (simp add: api.simps on_rejected.simps ex_defs)

section \<open>Properties of concurrent requests\<close>

text \<open>A task run alone gives the result and the state of \<open>api\<close>, within four answers.\<close>

lemma run_alone_mono:
  "run_alone net n x = Some y \<Longrightarrow> run_alone net (n + j) x = Some y"
proof (induction net n x rule: run_alone.induct)
  case (1 net n r st)
  then show ?case by simp
next
  case (2 net c k st)
  then show ?case by simp
next
  case (3 net n c k st)
  then show ?case by simp
qed

lemma run_alone_send:
  "run_alone net (Suc n) (send c k st) =
     run_alone net n (answered (net (sent st) (request_interceptor st c)) (request_interceptor st c) k
        (st\<lparr>sent := sent st @ [request_interceptor st c]\<rparr>))"
  by (simp add: send_def Let_def)

lemma rejected_settles:
  "retry (err_config e) \<or> err_status e \<noteq> Some 401 \<Longrightarrow> rejected e k st = settle (Rejected e) k st"
  by (auto simp: rejected_def)

lemma run_alone_retried:
  assumes "retry c" and "api net c st = (res, st')"
    and "run_alone net n (settle res k st') = Some y"
  shows "run_alone net (Suc n) (send c k st) = Some y"
proof -
  let ?c1 = "request_interceptor st c"
  let ?st1 = "st\<lparr>sent := sent st @ [?c1]\<rparr>"
  have "answered (net (sent st) ?c1) ?c1 k ?st1 = settle res k st'"
    using assms(1,2)
    by (auto simp: answered_def api_retried rejected_settles retry_request_interceptor
        split: net_outcome.splits if_splits)
  then show ?thesis using assms(3) by (simp add: run_alone_send)
qed

lemma run_alone_refreshing:
  assumes "isRefreshing st" and "api net c st = (res, st')"
    and "run_alone net n (settle res k st') = Some y"
  shows "run_alone net (n + 2) (send c k st) = Some y"
proof (cases "retry c")
  case True
  from run_alone_retried [OF True assms(2,3)] have "run_alone net (Suc n) (send c k st) = Some y" .
  from run_alone_mono [OF this, of 1] show ?thesis by simp
next
  case False
  let ?c1 = "request_interceptor st c"
  let ?st1 = "st\<lparr>sent := sent st @ [?c1]\<rparr>"
  show ?thesis
  proof (cases "\<exists>r. net (sent st) ?c1 = Response r \<and> status r = 401")
    case True
    then obtain r where r: "net (sent st) ?c1 = Response r" "status r = 401" by blast
    let ?o = "?c1\<lparr>retry := True\<rparr>"
    have eq: "api net c st = api net ?o ?st1"
      using r False assms(1)
      by (simp add: api.simps [of net c st] Let_def validateStatus_def
          on_rejected.simps [of net _ ?st1] err_status_def retry_request_interceptor)
    have ans: "answered (net (sent st) ?c1) ?c1 k ?st1 = send ?o k ?st1"
      using r False assms(1)
      by (simp add: answered_def validateStatus_def rejected_def err_status_def
          retry_request_interceptor Let_def)
    have "api net ?o ?st1 = (res, st')" using eq assms(2) by simp
    from run_alone_retried [OF _ this assms(3)]
    have "run_alone net (Suc n) (send ?o k ?st1) = Some y" by simp
    then have "run_alone net (Suc (Suc n)) (send c k st) = Some y"
      by (simp only: run_alone_send ans)
    then show ?thesis by simp
  next
    case False
    then have other: "net (sent st) ?c1 = NoResponse \<or>
        (\<exists>r. net (sent st) ?c1 = Response r \<and> status r \<noteq> 401)"
      by (cases "net (sent st) ?c1") auto
    have "answered (net (sent st) ?c1) ?c1 k ?st1 = settle res k st'"
      using other assms(2)
      by (auto simp: answered_def api.simps [of net c st] Let_def on_rejected_other err_status_def
          rejected_settles split: if_splits)
    then have "run_alone net (Suc n) (send c k st) = Some y"
      using assms(3) by (simp add: run_alone_send)
    from run_alone_mono [OF this, of 1] show ?thesis by simp
  qed
qed

lemma run_alone_any:
  assumes "api net c st = (res, st')"
    and "run_alone net n (settle res k st') = Some y"
  shows "run_alone net (n + 4) (send c k st) = Some y"
proof -
  let ?c1 = "request_interceptor st c"
  let ?st1 = "st\<lparr>sent := sent st @ [?c1]\<rparr>"
  consider (simple) "retry c \<or> isRefreshing st"
    | (other) "net (sent st) ?c1 = NoResponse \<or> (\<exists>r. net (sent st) ?c1 = Response r \<and> status r \<noteq> 401)"
    | (fresh) r where "\<not> retry c" "\<not> isRefreshing st" "net (sent st) ?c1 = Response r" "status r = 401"
    by (cases "net (sent st) ?c1") auto
  then show ?thesis
  proof cases
    case simple
    then have "run_alone net (n + 2) (send c k st) = Some y"
    proof
      assume "retry c"
      from run_alone_retried [OF this assms] have "run_alone net (Suc n) (send c k st) = Some y" .
      from run_alone_mono [OF this, of 1] show ?thesis by simp
    next
      assume "isRefreshing st"
      from run_alone_refreshing [OF this assms] show ?thesis .
    qed
    from run_alone_mono [OF this, of 2] have "run_alone net (n + 2 + 2) (send c k st) = Some y" .
    moreover have "n + 2 + 2 = n + 4" by simp
    ultimately show ?thesis by (simp only:)
  next
    case other
    have "answered (net (sent st) ?c1) ?c1 k ?st1 = settle res k st'"
      using other assms(1)
      by (auto simp: answered_def api.simps [of net c st] Let_def on_rejected_other err_status_def
          rejected_settles split: if_splits)
    then have "run_alone net (Suc n) (send c k st) = Some y"
      using assms(2) by (simp add: run_alone_send)
    from run_alone_mono [OF this, of 3] have "run_alone net (Suc n + 3) (send c k st) = Some y" .
    moreover have "Suc n + 3 = n + 4" by simp
    ultimately show ?thesis by (simp only:)
  next
    case fresh
    let ?o = "?c1\<lparr>retry := True\<rparr>"
    let ?e1 = "\<lparr>err_config = ?o, err_response = Some r\<rparr>"
    let ?rc = "request POST REFRESH NoData"
    let ?st1r = "st\<lparr>sent := sent st @ [?c1], isRefreshing := True\<rparr>"
    obtain rr st2 where eq2: "api net ?rc ?st1r = (rr, st2)" by (cases "api net ?rc ?st1r")
    have ans: "answered (net (sent st) ?c1) ?c1 k ?st1 = send ?rc (?e1 # k) ?st1r"
      using fresh
      by (simp add: answered_def validateStatus_def rejected_def err_status_def
          retry_request_interceptor Let_def)
    have inner: "run_alone net (Suc n) (settle rr (?e1 # k) st2) = Some y"
    proof (cases rr)
      case (Resolved resp)
      let ?st4 = "(if truthy (access_token (rdata resp)) then setAccessToken (access_token (rdata resp)) st2 else st2)
               \<lparr>isRefreshing := False\<rparr>"
      have "api net ?o ?st4 = (res, st')"
        using api_fresh_401 [where net = net and c = c and st = st, OF fresh] eq2 Resolved assms(1)
        by simp
      from run_alone_retried [OF _ this assms(2)]
      have "run_alone net (Suc n) (send ?o k ?st4) = Some y" by simp
      then show ?thesis using Resolved by (simp add: Let_def)
    next
      case (Rejected re)
      have "settle rr (?e1 # k) st2 = settle res k st'"
        using api_fresh_401 [where net = net and c = c and st = st, OF fresh] eq2 Rejected assms(1)
        by (auto simp: Let_def split: if_splits)
      then have "run_alone net n (settle rr (?e1 # k) st2) = Some y" using assms(2) by simp
      from run_alone_mono [OF this, of 1] show ?thesis by simp
    qed
    have "isRefreshing ?st1r" by simp
    from run_alone_refreshing [OF this eq2 inner]
    have "run_alone net (Suc n + 2) (send ?rc (?e1 # k) ?st1r) = Some y" .
    then have "run_alone net (Suc (Suc n + 2)) (send c k st) = Some y"
      by (simp only: run_alone_send ans)
    moreover have "Suc (Suc n + 2) = n + 4" by simp
    ultimately show ?thesis by (simp only:)
  qed
qed

lemma run_alone_is_api: "run_alone net 4 (send c [] st) = Some (api net c st)"
proof -
  obtain res st' where eq: "api net c st = (res, st')" by (cases "api net c st")
  have "run_alone net 0 (settle res [] st') = Some (res, st')" by simp
  from run_alone_any [OF eq this] show ?thesis by (simp add: eq)
qed

text \<open>
  C1 fails on the code. Two requests are in flight with the expired token and both are
  answered 401; the answers are those of a server that rejects the old token, accepts
  the new one and renews on refresh. In \<open>ex_race\<close> the second 401 is handled while the
  refresh started by the first is in flight: the second request is replayed at once,
  when the store still holds the old token, and is rejected for good, while the first
  succeeds after the refresh. In \<open>ex_late\<close> the second 401 is handled after that refresh
  has completed: a second refresh call is made.
\<close>

theorem concurrent_401_race:
  "tasks ex_race3 ! 1 =
     InFlight \<lparr>url = ''/sessions/s1/messages'', method' = GET, data = NoData,
               Authorization = Some ''Bearer old'', retry = True\<rparr> []
   \<and> accessToken (shared ex_race3) = Some ''old''
   \<and> isRefreshing (shared ex_race3)
   \<and> sent (shared ex_race) =
       [\<lparr>url = ''/sessions/s1'', method' = GET, data = NoData,
          Authorization = Some ''Bearer old'', retry = False\<rparr>,
        \<lparr>url = ''/sessions/s1/messages'', method' = GET, data = NoData,
          Authorization = Some ''Bearer old'', retry = False\<rparr>,
        \<lparr>url = ''/auth/refresh'', method' = POST, data = NoData,
          Authorization = Some ''Bearer old'', retry = False\<rparr>,
        \<lparr>url = ''/sessions/s1/messages'', method' = GET, data = NoData,
          Authorization = Some ''Bearer old'', retry = True\<rparr>,
        \<lparr>url = ''/sessions/s1'', method' = GET, data = NoData,
          Authorization = Some ''Bearer new'', retry = True\<rparr>]
   \<and> map (ex_server (Response ex_refresh_ok) []) (sent (shared ex_race)) =
       [Response ex_unauthorized, Response ex_unauthorized, Response ex_refresh_ok,
        Response ex_unauthorized, Response ex_ok]
   \<and> tasks ex_race =
       [Settled (Resolved ex_ok),
        Settled (Rejected \<lparr>err_config = \<lparr>url = ''/sessions/s1/messages'', method' = GET, data = NoData,
                                          Authorization = Some ''Bearer old'', retry = True\<rparr>,
                           err_response = Some ex_unauthorized\<rparr>)]
   \<and> accessToken (shared ex_race) = Some ''new''
   \<and> length (filter (\<lambda>c. url c = REFRESH) (sent (shared ex_late))) = 2
   \<and> tasks ex_late = [Settled (Resolved ex_ok), Settled (Resolved ex_ok)]"
  by (simp add: send_def rejected_def answered_def issue_def deliver_def ex_refresh_ok_def
      ex_get_session_def ex_get_messages_def ex_world_def ex_race3_def ex_race_def ex_late_def
      ex_defs)

section \<open>Properties of the entity stores and the page\<close>








lemma trim_whitespace_only:
  assumes "\<forall>ch\<in>set title. isWhiteSpace ch"
  shows "trim title = []"
proof -
  have "dropWhile isWhiteSpace title = []" using assms by simp
  then show ?thesis by (simp only: trim_def rev.simps dropWhile.simps)
qed

lemma trim_not_empty:
  assumes "\<exists>ch\<in>set title. \<not> isWhiteSpace ch"
  shows "trim title \<noteq> []"
proof -
  have "dropWhile isWhiteSpace title \<noteq> []" using assms by (simp add: dropWhile_eq_Nil_conv)
  moreover have "\<exists>ch\<in>set (dropWhile isWhiteSpace title). \<not> isWhiteSpace ch"
    using calculation by (metis hd_dropWhile hd_in_set)
  ultimately show ?thesis
    by (simp add: trim_def dropWhile_eq_Nil_conv)
qed

lemma createSession_Inr:
  assumes "createSession net title description p s = (Inr newSession, p1, s1)"
  shows "sessions s1 = newSession # sessions s \<and> currentSession s1 = Some newSession"
  using assms
  by (auto simp: createSession_def Let_def split: prod.splits api_result.splits)

text \<open>
  C7. When the title has a character that is not white space and \<^verbatim>\<open>createSession\<close>
  returns the new session, that session is at the front of the list and is the current
  selection. When the title is empty or white space only, the handler alerts and
  returns: nothing else of the state changes, and no request has been sent.
\<close>

theorem create_session_prepends:
  "((\<exists>ch\<in>set (newSessionTitle (panel page)). \<not> isWhiteSpace ch) \<and>
    createSession net (newSessionTitle (panel page)) (or_null (Some (newSessionDescription (panel page))))
       (pipeline page) (useSession page) = (Inr newSession, p1, s1) \<longrightarrow>
      useSession (SessionPanel_handleCreateSession net page) = s1 \<and>
      sessions s1 = newSession # sessions (useSession page) \<and>
      currentSession s1 = Some newSession) \<and>
   ((\<forall>ch\<in>set (newSessionTitle (panel page')). isWhiteSpace ch) \<longrightarrow>
      SessionPanel_handleCreateSession net page' =
        page'\<lparr>alerts := alerts page' @ [''Please enter a session title'']\<rparr> \<and>
      sent (pipeline (SessionPanel_handleCreateSession net page')) = sent (pipeline page'))"
proof (intro conjI impI)
  assume a: "(\<exists>ch\<in>set (newSessionTitle (panel page)). \<not> isWhiteSpace ch) \<and>
    createSession net (newSessionTitle (panel page)) (or_null (Some (newSessionDescription (panel page))))
       (pipeline page) (useSession page) = (Inr newSession, p1, s1)"
  then have t: "trim (newSessionTitle (panel page)) \<noteq> []" by (simp add: trim_not_empty)
  show "useSession (SessionPanel_handleCreateSession net page) = s1"
    using a t by (simp add: SessionPanel_handleCreateSession_def handleCreateSession_def Let_def)
  show "sessions s1 = newSession # sessions (useSession page)"
    using a createSession_Inr by blast
  show "currentSession s1 = Some newSession"
    using a createSession_Inr by blast
next
  assume b: "\<forall>ch\<in>set (newSessionTitle (panel page')). isWhiteSpace ch"
  then have t: "trim (newSessionTitle (panel page')) = []" by (rule trim_whitespace_only)
  show "SessionPanel_handleCreateSession net page' =
        page'\<lparr>alerts := alerts page' @ [''Please enter a session title'']\<rparr>"
    using t by (simp add: SessionPanel_handleCreateSession_def)
  show "sent (pipeline (SessionPanel_handleCreateSession net page')) = sent (pipeline page')"
    using t by (simp add: SessionPanel_handleCreateSession_def)
qed

lemma ex_create_run:
  "createSession ex_up ''Thesis'' (or_null (Some [])) (pipeline ex_page) (useSession ex_page) =
     (Inr ex_session,
      ex_signed_in\<lparr>sent := [\<lparr>url = ''/sessions'', method' = POST, data = SessionCreateData ''Thesis'' None,
                              Authorization = Some ''Bearer new'', retry = False\<rparr>]\<rparr>,
      \<lparr>sessions = [ex_session, ex_session, ex_other_session], currentSession = Some ex_session,
       messages = [], isLoading = False, error = None\<rparr>)"
  by (simp add: createSession_def api.simps ex_defs ex_page_defs)

theorem create_session_prepends_witness:
  "useSession (SessionPanel_handleCreateSession ex_up ex_page) =
     \<lparr>sessions = [ex_session, ex_session, ex_other_session], currentSession = Some ex_session,
      messages = [], isLoading = False, error = None\<rparr>
   \<and> SessionPanel_handleCreateSession ex_up
        (ex_page\<lparr>panel := \<lparr>showModal = True, newSessionTitle = ''  '', newSessionDescription = []\<rparr>\<rparr>)
      = ex_page\<lparr>panel := \<lparr>showModal = True, newSessionTitle = ''  '', newSessionDescription = []\<rparr>,
                alerts := [''Please enter a session title'']\<rparr>
   \<and> sent (pipeline (SessionPanel_handleCreateSession ex_up
        (ex_page\<lparr>panel := \<lparr>showModal = True, newSessionTitle = ''  '', newSessionDescription = []\<rparr>\<rparr>)))
      = []"
proof -
  let ?blank = "ex_page\<lparr>panel := \<lparr>showModal = True, newSessionTitle = ''  '', newSessionDescription = []\<rparr>\<rparr>"
  have h1: "\<exists>ch\<in>set (newSessionTitle (panel ex_page)). \<not> isWhiteSpace ch"
    by (simp add: ex_page_def isWhiteSpace_def)
  have h2: "createSession ex_up (newSessionTitle (panel ex_page))
       (or_null (Some (newSessionDescription (panel ex_page)))) (pipeline ex_page) (useSession ex_page) =
     (Inr ex_session,
      ex_signed_in\<lparr>sent := [\<lparr>url = ''/sessions'', method' = POST, data = SessionCreateData ''Thesis'' None,
                              Authorization = Some ''Bearer new'', retry = False\<rparr>]\<rparr>,
      \<lparr>sessions = [ex_session, ex_session, ex_other_session], currentSession = Some ex_session,
       messages = [], isLoading = False, error = None\<rparr>)"
    using ex_create_run by (simp add: ex_page_def)
  have h3: "\<forall>ch\<in>set (newSessionTitle (panel ?blank)). isWhiteSpace ch"
    by (simp add: isWhiteSpace_def)
  have e: "alerts ?blank = [] \<and> sent (pipeline ?blank) = []"
    by (simp add: ex_page_def ex_signed_in_def)
  show ?thesis
    using create_session_prepends [of ex_page ex_up ex_session _ _ ?blank] h1 h2 h3 e
    by simp
qed

lemma askQuery_assistant:
  "askQuery net t sid query p q = (Inr am, p1, q1) \<Longrightarrow> m_role am = assistant"
  by (auto simp: askQuery_def Let_def split: prod.splits api_result.splits)

lemma handleAskQuery_success:
  assumes "currentSession (useSession page) = Some cs"
    and "askQuery net t2 (s_session_id cs) query (pipeline page) (useQuery page) = (Inr am, p1, q1)"
  shows "useSession (handleAskQuery net t1 t2 query page) =
           addMessage am (addMessage (userMessage t1 query cs) (useSession page))"
  using assms by (simp add: handleAskQuery_def handleAskQuery_begin_def)

lemma handleAskQuery_failure:
  assumes "currentSession (useSession page) = Some cs"
    and "askQuery net t2 (s_session_id cs) query (pipeline page) (useQuery page) = (Inl err, p1, q1)"
  shows "useSession (handleAskQuery net t1 t2 query page) =
           addMessage (userMessage t1 query cs) (useSession page)"
  using assms by (simp add: handleAskQuery_def handleAskQuery_begin_def)

text \<open>
  C8. \<^verbatim>\<open>addMessage\<close> appends at the end, whatever the timestamp of the message. With a
  current session, the user message is appended before \<^verbatim>\<open>askQuery\<close> is called (the
  pipeline state is still the one before the handler); when \<^verbatim>\<open>askQuery\<close> returns the
  assistant message, the list has grown by the user message and then the assistant
  message; when it throws, by the user message alone.
\<close>

theorem ask_query_appends:
  "messages (addMessage m s) = messages s @ [m] \<and>
   messages (useSession (handleAskQuery_begin t1 query cs page))
     = messages (useSession page) @ [userMessage t1 query cs] \<and>
   pipeline (handleAskQuery_begin t1 query cs page) = pipeline page \<and>
   m_role (userMessage t1 query cs) = user \<and>
   (currentSession (useSession page) = Some cs \<and>
    askQuery net t2 (s_session_id cs) query (pipeline page) (useQuery page) = (Inr am, p1, q1) \<longrightarrow>
      messages (useSession (handleAskQuery net t1 t2 query page))
        = messages (useSession page) @ [userMessage t1 query cs, am] \<and>
      m_role am = assistant) \<and>
   (currentSession (useSession page') = Some cs' \<and>
    askQuery net' t2 (s_session_id cs') query (pipeline page') (useQuery page') = (Inl err, p1', q1') \<longrightarrow>
      messages (useSession (handleAskQuery net' t1 t2 query page'))
        = messages (useSession page') @ [userMessage t1 query cs'])"
proof (intro conjI impI)
  show "messages (addMessage m s) = messages s @ [m]" by (simp add: addMessage_def)
  show "messages (useSession (handleAskQuery_begin t1 query cs page))
     = messages (useSession page) @ [userMessage t1 query cs]"
    by (simp add: handleAskQuery_begin_def addMessage_def)
  show "pipeline (handleAskQuery_begin t1 query cs page) = pipeline page"
    by (simp add: handleAskQuery_begin_def)
  show "m_role (userMessage t1 query cs) = user" by (simp add: userMessage_def)
next
  assume a: "currentSession (useSession page) = Some cs \<and>
    askQuery net t2 (s_session_id cs) query (pipeline page) (useQuery page) = (Inr am, p1, q1)"
  show "messages (useSession (handleAskQuery net t1 t2 query page))
        = messages (useSession page) @ [userMessage t1 query cs, am]"
    using a by (simp add: handleAskQuery_success [of page cs net t2 query am p1 q1] addMessage_def)
  show "m_role am = assistant" using a askQuery_assistant by blast
next
  assume b: "currentSession (useSession page') = Some cs' \<and>
    askQuery net' t2 (s_session_id cs') query (pipeline page') (useQuery page') = (Inl err, p1', q1')"
  show "messages (useSession (handleAskQuery net' t1 t2 query page'))
        = messages (useSession page') @ [userMessage t1 query cs']"
    using b by (simp add: handleAskQuery_failure [of page' cs' net' t2 query err p1' q1'] addMessage_def)
qed

lemma ex_ask_run:
  "askQuery ex_up ex_later (s_session_id ex_session) ''What is the claim?'' (pipeline ex_page) (useQuery ex_page) =
     (Inr \<lparr>m_id = ''msg_'' @ toString (now ex_later), m_session_id = ''s1'', m_role = assistant,
           m_content = ''An answer'',
           m_metadata = Some \<lparr>md_citations = [], md_routing = None, md_visual_decision = None,
                               md_processing_time_ms = 12\<rparr>,
           m_created_at = iso ex_later\<rparr>,
      ex_signed_in\<lparr>sent := [\<lparr>url = ''/sessions/s1/query'', method' = POST,
                              data = QueryRequestData ''What is the claim?'' False True,
                              Authorization = Some ''Bearer new'', retry = False\<rparr>]\<rparr>,
      \<lparr>query_isLoading = False, query_error = None\<rparr>)"
  by (simp add: askQuery_def api.simps ex_defs ex_page_defs)

lemma ex_ask_fail_run:
  "askQuery ex_failing ex_later (s_session_id ex_session) ''What is the claim?'' (pipeline ex_page) (useQuery ex_page) =
     (Inl \<lparr>err_config = \<lparr>url = ''/sessions/s1/query'', method' = POST,
                              data = QueryRequestData ''What is the claim?'' False True,
                              Authorization = Some ''Bearer new'', retry = False\<rparr>,
           err_response = Some \<lparr>status = 500, rdata = ex_body\<lparr>detail := Some ''Database unavailable''\<rparr>\<rparr>\<rparr>,
      ex_signed_in\<lparr>sent := [\<lparr>url = ''/sessions/s1/query'', method' = POST,
                              data = QueryRequestData ''What is the claim?'' False True,
                              Authorization = Some ''Bearer new'', retry = False\<rparr>]\<rparr>,
      \<lparr>query_isLoading = False, query_error = Some ''Database unavailable''\<rparr>)"
  by (simp add: askQuery_def api.simps on_rejected.simps error_message_def ex_defs ex_page_defs)

theorem ask_query_appends_witness:
  "messages (useSession (handleAskQuery ex_up ex_clock ex_later ''What is the claim?'' ex_page))
     = [ex_message,
        userMessage ex_clock ''What is the claim?'' ex_session,
        \<lparr>m_id = ''msg_'' @ toString (now ex_later), m_session_id = ''s1'', m_role = assistant,
           m_content = ''An answer'',
           m_metadata = Some \<lparr>md_citations = [], md_routing = None, md_visual_decision = None,
                               md_processing_time_ms = 12\<rparr>,
           m_created_at = iso ex_later\<rparr>]
   \<and> messages (useSession (handleAskQuery ex_failing ex_clock ex_later ''What is the claim?'' ex_page))
     = [ex_message, userMessage ex_clock ''What is the claim?'' ex_session]"
proof -
  have cur: "currentSession (useSession ex_page) = Some ex_session" by (simp add: ex_page_def)
  have msg: "messages (useSession ex_page) = [ex_message]" by (simp add: ex_page_def)
  show ?thesis
    using ask_query_appends [where page = ex_page and page' = ex_page and cs = ex_session
        and cs' = ex_session and net = ex_up and net' = ex_failing and ?t1.0 = ex_clock
        and ?t2.0 = ex_later and query = "''What is the claim?''"]
      cur ex_ask_run ex_ask_fail_run
    by (simp add: msg)
qed

text \<open>
  C9. When the call of \<^verbatim>\<open>fetchSessions\<close>, \<^verbatim>\<open>createSession\<close>, \<^verbatim>\<open>deleteSession\<close>,
  \<^verbatim>\<open>fetchDocuments\<close> or \<^verbatim>\<open>deleteDocument\<close> is rejected, the store is the one before the
  call but for the loading flag and the error, which is the \<^verbatim>\<open>detail\<close> of the response
  when it has a non-empty one and the fixed message of the operation otherwise.
\<close>

theorem failed_call_keeps_collection:
  "(api net (request GET SESSIONS_LIST NoData) p = (Rejected err1 , p1) \<longrightarrow>
      fetchSessions net p s =
        (p1, s\<lparr>isLoading := False, error := Some (error_message err1 ''Failed to fetch sessions'')\<rparr>)) \<and>
   (api net (request POST SESSIONS_CREATE (SessionCreateData title (or_null description))) p
        = (Rejected err2, p2) \<longrightarrow>
      createSession net title description p s =
        (Inl err2, p2,
         s\<lparr>isLoading := False, error := Some (error_message err2 ''Failed to create session'')\<rparr>)) \<and>
   (api net (request DELETE (SESSIONS_DELETE sessionId) NoData) p = (Rejected err3, p3) \<longrightarrow>
      deleteSession net sessionId p s =
        (p3, s\<lparr>isLoading := False, error := Some (error_message err3 ''Failed to delete session'')\<rparr>)) \<and>
   (api net (request GET (DOCUMENTS_LIST sessionId) NoData) p = (Rejected err4, p4) \<longrightarrow>
      fetchDocuments net sessionId p d =
        (p4, d\<lparr>documents_isLoading := False,
               documents_error := Some (error_message err4 ''Failed to fetch documents'')\<rparr>)) \<and>
   (api net (request DELETE (DOCUMENTS_DELETE documentId) NoData) p = (Rejected err5, p5) \<longrightarrow>
      deleteDocument net documentId p d =
        (p5, d\<lparr>documents_isLoading := False,
               documents_error := Some (error_message err5 ''Failed to delete document'')\<rparr>)) \<and>
   error_message err fallback =
     (case err_response err of
        None \<Rightarrow> fallback
      | Some r \<Rightarrow> (case detail (rdata r) of
                     None \<Rightarrow> fallback
                   | Some m \<Rightarrow> if m = [] then fallback else m))"
  by (simp add: fetchSessions_def createSession_def deleteSession_def fetchDocuments_def
      deleteDocument_def DOCUMENTS_LIST_def error_message_def Let_def
      split: option.split)

lemma ex_failing_run:
  "api ex_failing (request m u b) ex_signed_in =
     (Rejected (ex_failure (request m u b)),
      ex_signed_in\<lparr>sent := [(request m u b)\<lparr>Authorization := Some ''Bearer new''\<rparr>]\<rparr>)"
  by (simp add: api.simps on_rejected.simps ex_failure_def ex_failing_def ex_signed_in_def request_def
      request_interceptor_def getAccessToken_def validateStatus_def err_status_def Let_def)

lemma ex_failure_message: "error_message (ex_failure c) fallback = ''Database unavailable''"
  by (simp add: error_message_def ex_failure_def ex_body_def)

theorem failed_call_keeps_collection_witness:
  "fst (snd (createSession ex_failing ''Thesis'' None ex_signed_in (useSession ex_page))) =
      ex_signed_in\<lparr>sent := [(request POST SESSIONS_CREATE (SessionCreateData ''Thesis'' None))
                              \<lparr>Authorization := Some ''Bearer new''\<rparr>]\<rparr>
   \<and> snd (fetchSessions ex_failing ex_signed_in (useSession ex_page)) =
      (useSession ex_page)\<lparr>isLoading := False, error := Some ''Database unavailable''\<rparr>
   \<and> snd (snd (createSession ex_failing ''Thesis'' None ex_signed_in (useSession ex_page))) =
      (useSession ex_page)\<lparr>isLoading := False, error := Some ''Database unavailable''\<rparr>
   \<and> snd (deleteSession ex_failing ''s1'' ex_signed_in (useSession ex_page)) =
      (useSession ex_page)\<lparr>isLoading := False, error := Some ''Database unavailable''\<rparr>
   \<and> snd (fetchDocuments ex_failing ''s1'' ex_signed_in (useDocuments ex_page)) =
      (useDocuments ex_page)\<lparr>documents_isLoading := False,
                              documents_error := Some ''Database unavailable''\<rparr>
   \<and> snd (deleteDocument ex_failing ''d1'' ex_signed_in (useDocuments ex_page)) =
      (useDocuments ex_page)\<lparr>documents_isLoading := False,
                              documents_error := Some ''Database unavailable''\<rparr>"
  using failed_call_keeps_collection [where net = ex_failing and p = ex_signed_in
      and s = "useSession ex_page" and d = "useDocuments ex_page" and title = "''Thesis''"
      and description = None and sessionId = "''s1''" and documentId = "''d1''"
      and ?err1.0 = "ex_failure (request GET SESSIONS_LIST NoData)"
      and ?err2.0 = "ex_failure (request POST SESSIONS_CREATE (SessionCreateData ''Thesis'' None))"
      and ?err3.0 = "ex_failure (request DELETE (SESSIONS_DELETE ''s1'') NoData)"
      and ?err4.0 = "ex_failure (request GET (DOCUMENTS_LIST ''s1'') NoData)"
      and ?err5.0 = "ex_failure (request DELETE (DOCUMENTS_DELETE ''d1'') NoData)"
      and ?p1.0 = "ex_signed_in\<lparr>sent := [(request GET SESSIONS_LIST NoData)\<lparr>Authorization := Some ''Bearer new''\<rparr>]\<rparr>"
      and ?p2.0 = "ex_signed_in\<lparr>sent := [(request POST SESSIONS_CREATE (SessionCreateData ''Thesis'' None))\<lparr>Authorization := Some ''Bearer new''\<rparr>]\<rparr>"
      and ?p3.0 = "ex_signed_in\<lparr>sent := [(request DELETE (SESSIONS_DELETE ''s1'') NoData)\<lparr>Authorization := Some ''Bearer new''\<rparr>]\<rparr>"
      and ?p4.0 = "ex_signed_in\<lparr>sent := [(request GET (DOCUMENTS_LIST ''s1'') NoData)\<lparr>Authorization := Some ''Bearer new''\<rparr>]\<rparr>"
      and ?p5.0 = "ex_signed_in\<lparr>sent := [(request DELETE (DOCUMENTS_DELETE ''d1'') NoData)\<lparr>Authorization := Some ''Bearer new''\<rparr>]\<rparr>"]
    ex_failing_run
  by (simp add: ex_failure_message)

end
